theory Spec2Isabelle
  imports Complex_Main
begin

section \<open>Strings of the runtime\<close>

text \<open>
  A JavaScript string is a sequence of UTF-16 code units; a code unit is modelled as a
  natural number and \<open>length\<close> is the string's \<open>.length\<close>. \<open>str\<close> turns an ASCII literal
  of the source into such a sequence.
\<close>

type_synonym jsstring = "nat list"

definition str :: "string \<Rightarrow> jsstring" where
  "str s = map of_char s"

text \<open>
  \<open>toLowerCase\<close>: the ASCII letters are mapped, every other code unit is kept (the
  Unicode case tables of the runtime are not part of this development).
\<close>

definition lowerUnit :: "nat \<Rightarrow> nat" where
  "lowerUnit c = (if 65 \<le> c \<and> c \<le> 90 then c + 32 else c)"

definition toLowerCase :: "jsstring \<Rightarrow> jsstring" where
  "toLowerCase s = map lowerUnit s"

fun startsWith :: "jsstring \<Rightarrow> jsstring \<Rightarrow> bool" where
  "startsWith s [] = True"
| "startsWith [] (k # ks) = False"
| "startsWith (c # cs) (k # ks) = (c = k \<and> startsWith cs ks)"

text \<open>\<open>s.includes(k)\<close>: \<open>k\<close> occurs in \<open>s\<close> at some index; the empty \<open>k\<close> always does.\<close>

fun js_includes :: "jsstring \<Rightarrow> jsstring \<Rightarrow> bool" where
  "js_includes [] k = (k = [])"
| "js_includes (c # cs) k = (startsWith (c # cs) k \<or> js_includes cs k)"

text \<open>White space and line terminators, as \<open>\s\<close> and \<open>trim\<close> understand them.\<close>

definition isSpace :: "nat \<Rightarrow> bool" where
  "isSpace c = (c \<in> {9, 10, 11, 12, 13, 32, 160, 5760, 8232, 8233, 8239, 8287, 12288, 65279}
     \<or> (8192 \<le> c \<and> c \<le> 8202))"

definition trim :: "jsstring \<Rightarrow> jsstring" where
  "trim s = rev (dropWhile isSpace (rev (dropWhile isSpace s)))"

text \<open>\<open>s.split(' ')\<close>: the pieces between single spaces; \<open>''''\<close> splits into one empty piece.\<close>

fun split_sp :: "jsstring \<Rightarrow> jsstring list" where
  "split_sp [] = [[]]"
| "split_sp (c # cs) =
     (if c = 32 then [] # split_sp cs
      else (case split_sp cs of [] \<Rightarrow> [[c]] | p # ps \<Rightarrow> (c # p) # ps))"


section \<open>Regular expressions of the runtime\<close>

text \<open>
  The regular expressions of the source are literals that the runtime matches by
  backtracking. They are written here in a small syntax, and \<open>rx\<close> returns every way of
  matching a pattern at the front of the input, in the priority order of the
  backtracking matcher (greedy repetition first), each with the rest of the input and the
  text of capture group 1. None of the source's patterns has more than one group.
\<close>

datatype cclass =
    Lit nat
  | Range nat nat
  | Digit
  | Space
  | Dot

datatype regex =
    Eps
  | Atom cclass
  | OneOf "cclass list"
  | Seq regex regex
  | Alt regex regex
  | Star regex
  | Group regex

definition swapCase :: "nat \<Rightarrow> nat" where
  "swapCase c = (if 65 \<le> c \<and> c \<le> 90 then c + 32
                 else if 97 \<le> c \<and> c \<le> 122 then c - 32 else c)"

text \<open>
  \<open>ci\<close> is the \<open>i\<close> flag. Without the \<open>u\<close> flag a code unit outside ASCII never
  canonicalises to an ASCII one, and the only non-ASCII units of the source's patterns
  are Devanagari, which has no case: swapping the case of ASCII letters is all the flag
  does here.
\<close>

fun cmatch :: "bool \<Rightarrow> cclass \<Rightarrow> nat \<Rightarrow> bool" where
  "cmatch ci (Lit p) c = (c = p \<or> (ci \<and> swapCase c = p))"
| "cmatch ci (Range lo hi) c =
     ((lo \<le> c \<and> c \<le> hi) \<or> (ci \<and> lo \<le> swapCase c \<and> swapCase c \<le> hi))"
| "cmatch ci Digit c = (48 \<le> c \<and> c \<le> 57)"
| "cmatch ci Space c = isSpace c"
| "cmatch ci Dot c = (c \<notin> {10, 13, 8232, 8233})"

type_synonym mstate = "jsstring \<times> jsstring option"

fun rx :: "bool \<Rightarrow> regex \<Rightarrow> mstate \<Rightarrow> mstate list" where
  "rx ci Eps st = [st]"
| "rx ci (Atom a) (s, cap) =
     (case s of [] \<Rightarrow> [] | c # cs \<Rightarrow> if cmatch ci a c then [(cs, cap)] else [])"
| "rx ci (OneOf as) (s, cap) =
     (case s of [] \<Rightarrow> [] | c # cs \<Rightarrow> if list_ex (\<lambda>a. cmatch ci a c) as then [(cs, cap)] else [])"
| "rx ci (Seq a b) st = concat (map (rx ci b) (rx ci a st))"
| "rx ci (Alt a b) st = rx ci a st @ rx ci b st"
| "rx ci (Star a) st =
     concat (map (rx ci (Star a))
                 (filter (\<lambda>t. length (fst t) < length (fst st)) (rx ci a st))) @ [st]"
| "rx ci (Group a) (s, cap) =
     map (\<lambda>t. (fst t, Some (take (length s - length (fst t)) s))) (rx ci a (s, cap))"

text \<open>
  \<open>exec\<close> is \<open>text.match(re)\<close> for a pattern without the \<open>g\<close> flag: the leftmost start
  index with a match, and there the match of highest priority. The result is \<open>None\<close> for
  \<open>null\<close> and otherwise holds \<open>match[1]\<close>. \<open>test\<close> is \<open>re.test(text)\<close>.
\<close>

fun exec :: "bool \<Rightarrow> regex \<Rightarrow> jsstring \<Rightarrow> jsstring option option" where
  "exec ci r [] = (case rx ci r ([], None) of [] \<Rightarrow> None | t # _ \<Rightarrow> Some (snd t))"
| "exec ci r (c # cs) =
     (case rx ci r (c # cs, None) of [] \<Rightarrow> exec ci r cs | t # _ \<Rightarrow> Some (snd t))"

definition test :: "bool \<Rightarrow> regex \<Rightarrow> jsstring \<Rightarrow> bool" where
  "test ci r s = (exec ci r s \<noteq> None)"

text \<open>Abbreviations of the pattern syntax.\<close>

definition lit :: "string \<Rightarrow> regex" where
  "lit s = foldr (\<lambda>c r. Seq (Atom (Lit (of_char c))) r) s Eps"

definition units :: "nat list \<Rightarrow> regex" where
  "units s = foldr (\<lambda>c r. Seq (Atom (Lit c)) r) s Eps"

definition Plus :: "regex \<Rightarrow> regex" where
  "Plus r = Seq r (Star r)"

definition Opt :: "regex \<Rightarrow> regex" where
  "Opt r = Alt r Eps"

fun seqs :: "regex list \<Rightarrow> regex" where
  "seqs [] = Eps"
| "seqs (r # rs) = Seq r (seqs rs)"

fun alts :: "regex list \<Rightarrow> regex" where
  "alts [] = Eps"
| "alts [r] = r"
| "alts (r # rs) = Alt r (alts rs)"


text \<open>\<open>r{lo,hi}\<close>: \<open>lo\<close> copies of \<open>r\<close>, then up to \<open>hi - lo\<close> more, as many as possible first.\<close>

fun upto_rep :: "nat \<Rightarrow> regex \<Rightarrow> regex" where
  "upto_rep 0 r = Eps"
| "upto_rep (Suc n) r = Opt (Seq r (upto_rep n r))"

definition rep :: "nat \<Rightarrow> nat \<Rightarrow> regex \<Rightarrow> regex" where
  "rep lo hi r = seqs (replicate lo r @ [upto_rep (hi - lo) r])"

definition anything :: regex where
  "anything = Star (Atom Dot)"

definition spaces :: regex where
  "spaces = Star (Atom Space)"

definition spaces1 :: regex where
  "spaces1 = Plus (Atom Space)"


section \<open>Values of the runtime\<close>

text \<open>
  The type annotations of the source are erased when it runs: what a model answers is
  JSON, and a position typed \<open>any\<close> holds a \<open>json option\<close>, \<open>None\<close> being \<open>undefined\<close>.
  Numbers are real numbers: the rounding of the double-precision arithmetic is not
  modelled. \<open>JObj\<close> lists the own properties of an object, each once.
\<close>

datatype json =
    JNull
  | JBool bool
  | JNum real
  | JStr jsstring
  | JArr "json list"
  | JObj "(jsstring \<times> json) list"

fun truthy :: "json option \<Rightarrow> bool" where
  "truthy None = False"
| "truthy (Some JNull) = False"
| "truthy (Some (JBool b)) = b"
| "truthy (Some (JNum x)) = (x \<noteq> 0)"
| "truthy (Some (JStr s)) = (s \<noteq> [])"
| "truthy (Some (JArr xs)) = True"
| "truthy (Some (JObj kvs)) = True"

text \<open>\<open>a || undefined\<close>, \<open>a || null\<close> and \<open>a || d\<close>.\<close>

definition or_undefined :: "json option \<Rightarrow> json option" where
  "or_undefined a = (if truthy a then a else None)"

definition or_else :: "json option \<Rightarrow> json \<Rightarrow> json" where
  "or_else a d = (case a of None \<Rightarrow> d | Some v \<Rightarrow> if truthy (Some v) then v else d)"

text \<open>What the source can throw: an \<open>Error\<close> with its message, or a value that is no \<open>Error\<close>.\<close>

datatype error = Error jsstring | Thrown

text \<open>
  Reading a property off a parsed answer, for the property names the source reads (none
  is an index, \<open>length\<close> or a name inherited from a prototype): \<open>null\<close> throws a
  \<open>TypeError\<close>, an object gives its own property, any other value gives \<open>undefined\<close>.
\<close>

fun getProp :: "json \<Rightarrow> jsstring \<Rightarrow> error + json option" where
  "getProp JNull k = Inl (Error (str ''Cannot read properties of null''))"
| "getProp (JObj kvs) k = Inr (map_of kvs k)"
| "getProp j k = Inr None"


section \<open>The audit log\<close>

text \<open>
  \<open>securityService\<close> is imported by every service and is not among the sources at hand.
  \<open>logAction\<close> is taken to append one entry to the audit log and to return normally; the
  details object of an entry is left out.
\<close>

record log_entry =
  log_user :: jsstring
  log_action :: jsstring
  log_resource :: jsstring

type_synonym audit = "log_entry list"

definition logAction :: "jsstring \<Rightarrow> string \<Rightarrow> jsstring \<Rightarrow> audit \<Rightarrow> audit" where
  "logAction uid act res lg =
     lg @ [\<lparr>log_user = uid, log_action = str act, log_resource = res\<rparr>]"


section \<open>Text extraction (ollamaService)\<close>

record PageResult =
  pageNumber :: nat
  width :: nat
  height :: nat
  page_extractedText :: jsstring
  page_confidence :: real

record OllamaTextExtractionResult =
  extractedText :: jsstring
  confidence :: real
  pages :: "PageResult list"
  processingTime :: int
  model :: jsstring

text \<open>
  An uploaded file: its name, and what \<open>fileToBase64\<close> gets from the \<open>FileReader\<close>, which
  is the encoded content, or \<open>None\<close> when the reader fails (the promise is then rejected
  with the reader's event, which is no \<open>Error\<close>).
\<close>

record File =
  file_name :: jsstring
  file_data :: "jsstring option"

definition fileToBase64 :: "File \<Rightarrow> error + jsstring" where
  "fileToBase64 file = (case file_data file of None \<Rightarrow> Inl Thrown | Some d \<Rightarrow> Inr d)"

text \<open>
  What a request to the vision service comes to: \<open>fetch\<close> rejects with a message (the
  service is unreachable); or the status is not 2xx (\<open>BadStatus\<close> holds the status number
  and the status text, joined by a space as the source prints them); or the body is not
  JSON, so that \<open>response.json()\<close> rejects with a message; or the body parses to \<open>data\<close>.
\<close>

datatype http_reply =
    Unreachable jsstring
  | BadStatus jsstring
  | BadBody jsstring
  | Body json

definition processWithGemma3 :: "http_reply \<Rightarrow> error + jsstring" where
  "processWithGemma3 reply =
     (case reply of
        Unreachable m \<Rightarrow> Inl (Error m)
      | BadStatus st \<Rightarrow> Inl (Error (str ''Ollama API error: '' @ st))
      | BadBody m \<Rightarrow> Inl (Error m)
      | Body data \<Rightarrow>
          (case getProp data (str ''response'') of
             Inl e \<Rightarrow> Inl e
           | Inr r \<Rightarrow>
               if \<not> truthy r then Inl (Error (str ''No response from Ollama model''))
               else (case r of
                       Some (JStr t) \<Rightarrow> Inr (trim t)
                     | _ \<Rightarrow> Inl (Error (str ''data.response.trim is not a function'')))))"

definition documentKeywords :: "jsstring list" where
  "documentKeywords = map str [''date'', ''name'', ''address'', ''phone'', ''email'',
     ''officer'', ''department'', ''police'']"

definition hasNumbers :: "jsstring \<Rightarrow> bool" where
  "hasNumbers t = test False (Atom Digit) t"

definition hasLetters :: "jsstring \<Rightarrow> bool" where
  "hasLetters t = test False (OneOf [Range 97 122, Range 65 90]) t"

definition hasPunctuation :: "jsstring \<Rightarrow> bool" where
  "hasPunctuation t = test False (OneOf [Lit 46, Lit 44, Lit 59, Lit 58, Lit 33, Lit 63]) t"

definition keywordMatches :: "jsstring \<Rightarrow> nat" where
  "keywordMatches t = length (filter (\<lambda>keyword. js_includes (toLowerCase t) keyword) documentKeywords)"

text \<open>The running value \<open>confidence\<close> of the source is threaded through the \<open>let\<close>s.\<close>

definition calculateConfidence :: "jsstring \<Rightarrow> real" where
  "calculateConfidence t =
     (if length t = 0 then 0.0
      else
        let c0 = 0.7;
            c1 = (if length t > 100 then c0 + 0.1 else c0);
            c2 = (if length t > 500 then c1 + 0.1 else c1);
            c3 = (if length t < 20 then c2 - 0.2 else c2);
            c4 = (if hasNumbers t \<and> hasLetters t then c3 + 0.05 else c3);
            c5 = (if hasPunctuation t then c4 + 0.05 else c4);
            c6 = (if keywordMatches t > 0 then c5 + real (keywordMatches t) * 0.02 else c5)
        in min (max c6 0.0) 1.0)"

text \<open>
  \<open>extractTextFromDocument\<close>: \<open>t0\<close> and \<open>t1\<close> are the two readings of the clock. Whatever
  is thrown inside is logged and thrown again, wrapped.
\<close>

definition errorMessage :: "string \<Rightarrow> error \<Rightarrow> jsstring" where
  "errorMessage dflt e = (case e of Error m \<Rightarrow> m | Thrown \<Rightarrow> str dflt)"

definition extractTextFromDocument ::
  "File \<Rightarrow> jsstring \<Rightarrow> http_reply \<Rightarrow> int \<Rightarrow> int \<Rightarrow> audit
     \<Rightarrow> (error + OllamaTextExtractionResult) \<times> audit" where
  "extractTextFromDocument file uid reply t0 t1 lg =
     (let lg1 = logAction uid ''ollama_processing_start'' (file_name file) lg;
          attempt = (case fileToBase64 file of
                       Inl e \<Rightarrow> Inl e
                     | Inr base64Data \<Rightarrow> processWithGemma3 reply)
      in case attempt of
           Inr t \<Rightarrow>
             (Inr \<lparr>extractedText = t, confidence = calculateConfidence t,
                   pages = [\<lparr>pageNumber = 1, width = 0, height = 0,
                             page_extractedText = t,
                             page_confidence = calculateConfidence t\<rparr>],
                   processingTime = t1 - t0, model = str ''gemma3''\<rparr>,
              logAction uid ''ollama_processing_complete'' (file_name file) lg1)
         | Inl e \<Rightarrow>
             (Inl (Error (str ''Ollama text extraction failed: ''
                          @ errorMessage ''Ollama processing failed'' e)),
              logAction uid ''ollama_processing_error'' (file_name file) lg1))"


section \<open>Stamp and signature analysis (stampSignatureService)\<close>

datatype status = Present | Absent

datatype yn = Y | N

record StampDetectionResult =
  Stamp_Status :: status
  Stamp_Coordinates :: json
  Stamp_Type :: "jsstring option"
  Stamp_Confidence :: "json option"
  Stamp_ExtractedText :: "json option"
  Stamp_PersonName :: "json option"
  Stamp_Date :: "json option"

record SignatureDetectionResult =
  Sig_Status :: status
  Sig_Coordinates :: json
  Sig_Confidence :: "json option"
  Sig_PersonName :: "json option"
  Sig_Date :: "json option"

text \<open>What \<open>analyzeWithOllama\<close> and \<open>fallbackTextAnalysis\<close> return.\<close>

record Analysis =
  Stamp :: StampDetectionResult
  Signature :: SignatureDetectionResult
  StampValidation :: yn
  MatchedStampType :: "json option"
  PersonName :: "json option"
  Date :: "json option"


record StampRecord =
  stamp_id :: jsstring
  stamp_name :: jsstring
  stamp_keywords :: "jsstring list"
  pattern :: regex

definition OFFICIAL_STAMP_MASTER_LIST :: "StampRecord list" where
  "OFFICIAL_STAMP_MASTER_LIST =
    [\<lparr>stamp_id = str ''stamp_1'',
      stamp_name = str ''OFFICER COMMANDING 14th BN A.P.S.P. ANANTHAPURAMU'',
      stamp_keywords = map str [''OFFICER COMMANDING'', ''14TH BN'', ''A.P.S.P'', ''ANANTHAPURAMU''],
      pattern = seqs [lit ''OFFICER'', spaces1, lit ''COMMANDING'', anything, lit ''14'',
                      anything, lit ''BN'', anything, lit ''A.P.S.P'', anything,
                      lit ''ANANTHAPURAMU'']\<rparr>,
     \<lparr>stamp_id = str ''stamp_2'',
      stamp_name = str ''STATE OFFICER TO ADGP APSP HEAD OFFICE MANGALAGIRI'',
      stamp_keywords = map str [''STATE OFFICER'', ''ADGP'', ''APSP'', ''HEAD OFFICE'', ''MANGALAGIRI''],
      pattern = seqs [lit ''STATE'', spaces1, lit ''OFFICER'', anything, lit ''ADGP'',
                      anything, lit ''APSP'', anything, lit ''HEAD'', spaces1, lit ''OFFICE'',
                      anything, lit ''MANGALAGIRI'']\<rparr>,
     \<lparr>stamp_id = str ''stamp_3'',
      stamp_name = str ''Inspector General of Police APSP Bns, Amaravathi'',
      stamp_keywords = map str [''INSPECTOR GENERAL'', ''POLICE'', ''APSP'', ''BNS'', ''AMARAVATHI''],
      pattern = seqs [lit ''INSPECTOR'', spaces1, lit ''GENERAL'', anything, lit ''POLICE'',
                      anything, lit ''APSP'', anything, lit ''BNS'', anything,
                      lit ''AMARAVATHI'']\<rparr>,
     \<lparr>stamp_id = str ''stamp_4'',
      stamp_name = str ''Dy. Inspector General of Police-IV APSP Battalions, Mangalagiri'',
      stamp_keywords = map str [''DY'', ''INSPECTOR GENERAL'', ''POLICE'', ''APSP'', ''BATTALIONS'',
                          ''MANGALAGIRI''],
      pattern = seqs [lit ''DY'', anything, lit ''INSPECTOR'', spaces1, lit ''GENERAL'',
                      anything, lit ''POLICE'', anything, lit ''APSP'', anything,
                      lit ''BATTALIONS'', anything, lit ''MANGALAGIRI'']\<rparr>,
     \<lparr>stamp_id = str ''stamp_5'',
      stamp_name =
        str ''Sd/- B. Sreenivasulu, IPS., Addl. Commissioner of Police, Vijayawada City'',
      stamp_keywords = map str [''SD'', ''SREENIVASULU'', ''IPS'', ''COMMISSIONER'', ''POLICE'',
                          ''VIJAYAWADA''],
      pattern = seqs [lit ''SD'', anything, lit ''SREENIVASULU'', anything, lit ''IPS'',
                      anything, lit ''COMMISSIONER'', anything, lit ''POLICE'', anything,
                      lit ''VIJAYAWADA'']\<rparr>,
     \<lparr>stamp_id = str ''stamp_6'',
      stamp_name =
        str ''Dr. SHANKHABRATA BAGCHI IPS., Addl. Director General of Police, APSP Battalions'',
      stamp_keywords = map str [''SHANKHABRATA'', ''BAGCHI'', ''IPS'', ''DIRECTOR GENERAL'', ''POLICE'',
                          ''APSP'', ''BATTALIONS''],
      pattern = seqs [lit ''SHANKHABRATA'', anything, lit ''BAGCHI'', anything, lit ''IPS'',
                      anything, lit ''DIRECTOR'', spaces1, lit ''GENERAL'', anything,
                      lit ''POLICE'', anything, lit ''APSP'', anything,
                      lit ''BATTALIONS'']\<rparr>]"

text \<open>The character class \<open>[a-z]\<close>, and the patterns of \<open>fallbackTextAnalysis\<close>.\<close>

definition az :: cclass where
  "az = Range 97 122"

definition namePatterns :: "regex list" where
  "namePatterns =
     [seqs [lit ''sd'', Opt (Atom (Lit 47)), spaces, Opt (Atom (Lit 45)), spaces,
            Group (Plus (OneOf [az, Space, Lit 46]))],
      seqs [lit ''signed'', spaces1, lit ''by'', spaces1,
            Group (Plus (OneOf [az, Space, Lit 46]))],
      seqs [Group (seqs [Plus (Atom az), spaces1, Plus (Atom az)]),
            Opt (Atom (Lit 44)), spaces1, lit ''ips'']]"

definition datePattern :: regex where
  "datePattern =
     Group (seqs [rep 1 2 (Atom Digit), OneOf [Lit 45, Lit 47], rep 1 2 (Atom Digit),
                  OneOf [Lit 45, Lit 47], rep 2 4 (Atom Digit)])"

text \<open>\<open>match && match[1]\<close>: the captured text when there is a match with a non-empty group 1.\<close>

definition captured :: "jsstring option option \<Rightarrow> jsstring option" where
  "captured m = (case m of Some (Some g) \<Rightarrow> if g = [] then None else Some g | _ \<Rightarrow> None)"

text \<open>The loop over \<open>namePatterns\<close>, left at the first pattern with a captured name.\<close>

fun findPersonName :: "regex list \<Rightarrow> jsstring \<Rightarrow> jsstring option" where
  "findPersonName [] t = None"
| "findPersonName (p # ps) t =
     (case captured (exec True p t) of
        Some g \<Rightarrow> Some (trim g)
      | None \<Rightarrow> findPersonName ps t)"

text \<open>
  The loop over the master list, left at the first stamp whose pattern is found in the
  text: it gives \<open>matchedStamp\<close> and \<open>stampValidation\<close>.
\<close>

fun findStamp :: "StampRecord list \<Rightarrow> jsstring \<Rightarrow> jsstring option \<times> yn" where
  "findStamp [] t = (None, N)"
| "findStamp (stamp # stamps) t =
     (if test True (pattern stamp) t then (Some (stamp_name stamp), Y)
      else findStamp stamps t)"

definition coords :: "real list \<Rightarrow> json" where
  "coords xs = JArr (map JNum xs)"

definition fallbackTextAnalysis :: "jsstring \<Rightarrow> Analysis" where
  "fallbackTextAnalysis txt =
     (let textLower = toLowerCase txt;
          hasStampKeywords = list_ex (\<lambda>keyword. js_includes textLower keyword)
            (map str [''stamp'', ''seal'', ''officer'', ''police'', ''commanding'',
                      ''commissioner'']);
          hasSignatureKeywords = list_ex (\<lambda>keyword. js_includes textLower keyword)
            (map str [''signature'', ''signed'', ''sd/'', ''sign'']);
          personName = map_option JStr (findPersonName namePatterns txt);
          date = (case exec False datePattern txt of
                    Some (Some g) \<Rightarrow> Some (JStr g) | _ \<Rightarrow> None);
          found = findStamp OFFICIAL_STAMP_MASTER_LIST txt
      in \<lparr>Stamp = \<lparr>Stamp_Status = (if hasStampKeywords then Present else Absent),
                   Stamp_Coordinates =
                     (if hasStampKeywords then coords [100, 100, 200, 100] else JNull),
                   Stamp_Type = (if hasStampKeywords then Some (str ''official_stamp'') else None),
                   Stamp_Confidence = Some (JNum (if hasStampKeywords then 0.6 else 0.3)),
                   Stamp_ExtractedText = None,
                   Stamp_PersonName = personName,
                   Stamp_Date = date\<rparr>,
          Signature = \<lparr>Sig_Status = (if hasSignatureKeywords then Present else Absent),
                       Sig_Coordinates =
                         (if hasSignatureKeywords then coords [300, 400, 150, 50] else JNull),
                       Sig_Confidence = Some (JNum (if hasSignatureKeywords then 0.6 else 0.3)),
                       Sig_PersonName = personName,
                       Sig_Date = date\<rparr>,
          StampValidation = snd found,
          MatchedStampType = map_option JStr (fst found),
          PersonName = personName,
          Date = date\<rparr>)"


text \<open>
  What the request of \<open>analyzeWithOllama\<close> to the vision model comes to. \<open>NoAnswer\<close>:
  something is thrown before the answer is parsed (\<open>fetch\<close> rejects, the status is not
  2xx, the body is not JSON, or \<open>response\<close> is missing or empty), which the outer
  \<open>catch\<close> receives. \<open>NotJson\<close>: the answer has no \<open>{...}\<close> span or \<open>JSON.parse\<close> rejects
  it, which the inner \<open>catch\<close> receives. \<open>Answer\<close>: the own properties of the parsed
  object.
\<close>

datatype generate_reply =
    NoAnswer
  | NotJson
  | Answer "(jsstring \<times> json) list"

definition opt_prop :: "string \<Rightarrow> json option \<Rightarrow> (jsstring \<times> json) list" where
  "opt_prop k v = (case v of None \<Rightarrow> [] | Some j \<Rightarrow> [(str k, j)])"

definition status_json :: "status \<Rightarrow> json" where
  "status_json st = JStr (case st of Present \<Rightarrow> str ''Present'' | Absent \<Rightarrow> str ''Absent'')"

text \<open>
  The object that \<open>fallbackTextAnalysis\<close> returns, as the property reads of
  \<open>analyzeWithOllama\<close> see it when the inner \<open>catch\<close> stores it in \<open>analysisResult\<close>: its
  properties with a defined value.
\<close>

definition analysisObject :: "Analysis \<Rightarrow> (jsstring \<times> json) list" where
  "analysisObject a =
     [(str ''Stamp'',
         JObj ([(str ''Status'', status_json (Stamp_Status (Stamp a))),
                (str ''Coordinates'', Stamp_Coordinates (Stamp a))]
               @ opt_prop ''Type'' (map_option JStr (Stamp_Type (Stamp a)))
               @ opt_prop ''Confidence'' (Stamp_Confidence (Stamp a))
               @ opt_prop ''PersonName'' (Stamp_PersonName (Stamp a))
               @ opt_prop ''Date'' (Stamp_Date (Stamp a)))),
      (str ''Signature'',
         JObj ([(str ''Status'', status_json (Sig_Status (Signature a))),
                (str ''Coordinates'', Sig_Coordinates (Signature a))]
               @ opt_prop ''Confidence'' (Sig_Confidence (Signature a))
               @ opt_prop ''PersonName'' (Sig_PersonName (Signature a))
               @ opt_prop ''Date'' (Sig_Date (Signature a)))),
      (str ''StampValidation'',
         JStr (case StampValidation a of Y \<Rightarrow> str ''Y'' | N \<Rightarrow> str ''N''))]
     @ opt_prop ''MatchedStampType'' (MatchedStampType a)
     @ opt_prop ''PersonName'' (PersonName a)
     @ opt_prop ''Date'' (Date a)"

text \<open>"Convert to our result format": the reads of \<open>analysisResult\<close>, an object.\<close>

definition convertResult :: "(jsstring \<times> json) list \<Rightarrow> Analysis" where
  "convertResult analysisResult =
     (let get = (\<lambda>k. map_of analysisResult (str k))
      in \<lparr>Stamp = \<lparr>Stamp_Status = (if truthy (get ''stamp_detected'') then Present else Absent),
                   Stamp_Coordinates = or_else (get ''stamp_coordinates'') JNull,
                   Stamp_Type =
                     (if truthy (get ''stamp_text'') then Some (str ''official_stamp'') else None),
                   Stamp_Confidence = Some (or_else (get ''confidence_score'') (JNum 0.7)),
                   Stamp_ExtractedText = or_undefined (get ''stamp_text''),
                   Stamp_PersonName = or_undefined (get ''person_name''),
                   Stamp_Date = or_undefined (get ''date_found'')\<rparr>,
          Signature = \<lparr>Sig_Status =
                         (if truthy (get ''signature_detected'') then Present else Absent),
                       Sig_Coordinates = or_else (get ''signature_coordinates'') JNull,
                       Sig_Confidence = Some (or_else (get ''confidence_score'') (JNum 0.7)),
                       Sig_PersonName = or_undefined (get ''person_name''),
                       Sig_Date = or_undefined (get ''date_found'')\<rparr>,
          StampValidation = (if truthy (get ''official_stamp_match'') then Y else N),
          MatchedStampType = or_undefined (get ''matched_stamp_type''),
          PersonName = or_undefined (get ''person_name''),
          Date = or_undefined (get ''date_found'')\<rparr>)"

definition analyzeWithOllama :: "File \<Rightarrow> jsstring \<Rightarrow> generate_reply \<Rightarrow> error + Analysis" where
  "analyzeWithOllama file txt reply =
     (case fileToBase64 file of
        Inl e \<Rightarrow> Inl e
      | Inr base64Data \<Rightarrow>
          (case reply of
             NoAnswer \<Rightarrow> Inr (fallbackTextAnalysis txt)
           | NotJson \<Rightarrow> Inr (convertResult (analysisObject (fallbackTextAnalysis txt)))
           | Answer analysisResult \<Rightarrow> Inr (convertResult analysisResult)))"




section \<open>Classification and field extraction (openAIService)\<close>

text \<open>
  The module \<open>types\<close> that declares \<open>DocumentType\<close> is not among the sources at hand; the
  fields below are the ones the service reads. \<open>OtherType\<close> stands for a field type
  that reaches the \<open>default\<close> branch of the two \<open>switch\<close> statements.
\<close>

datatype field_type = TextT | Textarea | Number | DateT | Select | OtherType

record TemplateField =
  field_id :: jsstring
  label :: jsstring
  field_type :: field_type
  required :: bool
  options :: "jsstring list option"

record DocumentType =
  template_id :: jsstring
  name :: jsstring
  category :: jsstring
  template :: "TemplateField list"

text \<open>
  An object used as a dictionary: \<open>obj\<close> holds its own properties. While the source
  builds one, it is a \<open>dict\<close>: the own properties, and whether the prototype is still
  \<open>Object.prototype\<close>, as it is for an object literal. Then the operator \<open>in\<close> also finds
  the inherited names, and an assignment to \<open>__proto__\<close>, unless the object has a
  property of its own with this name, reaches the inherited setter: it creates no
  property, and with \<open>null\<close> it takes the prototype away. The source assigns strings and
  \<open>null\<close> only: an assigned value is a \<open>jsstring option\<close>, \<open>None\<close> being \<open>null\<close>.
\<close>

type_synonym obj = "jsstring \<rightharpoonup> json"

type_synonym dict = "obj \<times> bool"

definition newObject :: dict where
  "newObject = (Map.empty, True)"

definition prim :: "jsstring option \<Rightarrow> json" where
  "prim v = (case v of None \<Rightarrow> JNull | Some s \<Rightarrow> JStr s)"

definition prototypeNames :: "jsstring list" where
  "prototypeNames = map str [''constructor'', ''__defineGetter__'', ''__defineSetter__'',
     ''hasOwnProperty'', ''__lookupGetter__'', ''__lookupSetter__'', ''isPrototypeOf'',
     ''propertyIsEnumerable'', ''toString'', ''valueOf'', ''__proto__'', ''toLocaleString'']"

definition js_in :: "jsstring \<Rightarrow> dict \<Rightarrow> bool" where
  "js_in k ob = (fst ob k \<noteq> None \<or> (snd ob \<and> k \<in> set prototypeNames))"

definition assign :: "dict \<Rightarrow> jsstring \<Rightarrow> jsstring option \<Rightarrow> dict" where
  "assign ob k v =
     (if k = str ''__proto__'' \<and> snd ob \<and> fst ob k = None
        then (case v of None \<Rightarrow> (fst ob, False) | Some s \<Rightarrow> ob)
      else ((fst ob)(k \<mapsto> prim v), snd ob))"

text \<open>The value of a field by its type, as both \<open>switch\<close> statements set it.\<close>

definition defaultValue :: "TemplateField \<Rightarrow> jsstring option" where
  "defaultValue field =
     (case field_type field of
        TextT \<Rightarrow> Some []
      | Textarea \<Rightarrow> Some []
      | Number \<Rightarrow> None
      | DateT \<Rightarrow> None
      | Select \<Rightarrow> (case options field of
                     Some (opt # _) \<Rightarrow> if opt = [] then Some [] else Some opt
                   | _ \<Rightarrow> Some [])
      | OtherType \<Rightarrow> Some [])"

record FieldExtraction =
  fe_documentType :: json
  fe_confidence :: json
  fe_reasoning :: json
  fe_extractedFields :: obj
  fe_fieldMappingDetails :: json

record OpenAIAnalysisResult =
  documentType :: json
  oa_confidence :: json
  reasoning :: json
  extractedFields :: obj
  templateMatch :: DocumentType
  fieldMappingDetails :: json

text \<open>
  What a chat completion request comes to. \<open>ChatFailed\<close>: something is thrown before
  the answer is parsed (\<open>fetch\<close> rejects, the status is not 2xx, the body has no
  \<open>choices[0].message.content\<close>, or \<open>JSON.parse\<close> rejects the cleaned content).
  \<open>ChatJson\<close>: the value \<open>JSON.parse\<close> returns.
\<close>

datatype chat_reply = ChatFailed | ChatJson json

definition findBestTemplate :: "jsstring \<Rightarrow> DocumentType list \<Rightarrow> chat_reply \<Rightarrow> DocumentType option" where
  "findBestTemplate txt templates reply =
     (let caught = (case templates of [] \<Rightarrow> None | t # _ \<Rightarrow> Some t)
      in case reply of
           ChatFailed \<Rightarrow> caught
         | ChatJson analysis \<Rightarrow>
             (case getProp analysis (str ''bestTemplateId'') of
                Inl e \<Rightarrow> caught
              | Inr bestTemplateId \<Rightarrow>
                  find (\<lambda>t. Some (JStr (template_id t)) = bestTemplateId) templates))"

text \<open>The first loop of \<open>extractFieldsBasic\<close>: every field gets its default, in order.\<close>

fun initFields :: "TemplateField list \<Rightarrow> dict \<Rightarrow> dict" where
  "initFields [] flds = flds"
| "initFields (field # rest) flds =
     initFields rest (assign flds (field_id field) (defaultValue field))"

definition labelStart :: "regex list \<Rightarrow> regex" where
  "labelStart ws = seqs [alts ws, spaces, Opt (Atom (Lit 58)), spaces,
                         Group (Plus (OneOf [az, Space]))]"

text \<open>
  The object \<open>patterns\<close>, as \<open>Object.entries\<close> lists it: key, pattern and \<open>i\<close> flag. The
  Devanagari words are given by their code units.
\<close>

definition patterns :: "(jsstring \<times> regex \<times> bool) list" where
  "patterns =
     [(str ''name'',
       labelStart [lit ''name'', lit ''officer'', lit ''recipient'',
                   units [2358, 2381, 2352, 2368], lit ''sri''], True),
      (str ''date'', datePattern, False),
      (str ''station'',
       labelStart [lit ''station'', lit ''police'', units [2341, 2366, 2344, 2366]], True),
      (str ''rank'', labelStart [lit ''rank'', units [2346, 2342]], True)]"

text \<open>The second loop of \<open>extractFieldsBasic\<close>, over the entries of \<open>patterns\<close>.\<close>

fun applyPatterns ::
  "(jsstring \<times> regex \<times> bool) list \<Rightarrow> jsstring \<Rightarrow> TemplateField list \<Rightarrow> dict \<Rightarrow> dict" where
  "applyPatterns [] txt tfields flds = flds"
| "applyPatterns ((key, pat, ci) # rest) txt tfields flds =
     (case captured (exec ci pat txt) of
        None \<Rightarrow> applyPatterns rest txt tfields flds
      | Some g \<Rightarrow>
          (case find (\<lambda>field. js_includes (toLowerCase (label field)) key
                              \<or> js_includes (toLowerCase (field_id field)) key) tfields of
             None \<Rightarrow> applyPatterns rest txt tfields flds
           | Some matchingField \<Rightarrow>
               applyPatterns rest txt tfields
                 (assign flds (field_id matchingField) (Some (trim g)))))"

definition extractFieldsBasic :: "jsstring \<Rightarrow> DocumentType \<Rightarrow> obj" where
  "extractFieldsBasic txt t =
     fst (applyPatterns patterns txt (template t) (initFields (template t) newObject))"

definition createFallbackFieldExtraction :: "jsstring \<Rightarrow> DocumentType \<Rightarrow> FieldExtraction" where
  "createFallbackFieldExtraction txt t =
     \<lparr>fe_documentType = JStr (name t),
      fe_confidence = JNum 0.6,
      fe_reasoning = JStr (str ''Fallback field extraction using pattern matching''),
      fe_extractedFields = extractFieldsBasic txt t,
      fe_fieldMappingDetails = JArr []\<rparr>"


text \<open>\<open>[...new Set(keywords)]\<close>: every keyword once, at its first place.\<close>

fun uniq :: "jsstring list \<Rightarrow> jsstring list" where
  "uniq [] = []"
| "uniq (k # ks) = k # uniq (removeAll k ks)"

definition getTemplateKeywords :: "DocumentType \<Rightarrow> jsstring list" where
  "getTemplateKeywords t =
     uniq (split_sp (toLowerCase (name t))
           @ [toLowerCase (category t)]
           @ concat (map (\<lambda>field. split_sp (toLowerCase (label field))) (template t))
           @ (if template_id t = str ''transfer''
                then map str [''transfer'', ''posting'', ''station'', ''order'']
              else if template_id t = str ''award''
                then map str [''award'', ''certificate'', ''recognition'', ''medal'']
              else if template_id t = str ''complaint''
                then map str [''complaint'', ''grievance'', ''disciplinary'']
              else []))"

text \<open>The inner loop of \<open>createFallbackAnalysis\<close>: the keywords found in the lowered text.\<close>

definition matchCount :: "jsstring \<Rightarrow> DocumentType \<Rightarrow> nat" where
  "matchCount txt t =
     length (filter (\<lambda>keyword. js_includes (toLowerCase txt) (toLowerCase keyword))
                    (getTemplateKeywords t))"

text \<open>
  The outer loop, left at the first template with a match: it gives \<open>bestTemplate\<close> and
  \<open>confidence\<close>, or \<open>None\<close> when it runs to its end and both keep their initial values.
\<close>

fun keywordLoop :: "jsstring \<Rightarrow> DocumentType list \<Rightarrow> (DocumentType \<times> real) option" where
  "keywordLoop txt [] = None"
| "keywordLoop txt (t # ts) =
     (if matchCount txt t > 0
        then Some (t, min 0.8 (0.5 + real (matchCount txt t) * 0.1))
      else keywordLoop txt ts)"

text \<open>
  \<open>createFallbackAnalysis\<close>. With an empty catalog \<open>templates[0]\<close> is \<open>undefined\<close>, the
  loop does nothing, and \<open>extractFieldsBasic\<close> throws a \<open>TypeError\<close> when it reads
  \<open>template.template\<close>, before anything is logged.
\<close>

definition createFallbackAnalysis ::
  "jsstring \<Rightarrow> DocumentType list \<Rightarrow> jsstring \<Rightarrow> audit \<Rightarrow> (error + OpenAIAnalysisResult) \<times> audit" where
  "createFallbackAnalysis txt templates uid lg =
     (let chosen = (case keywordLoop txt templates of
                      Some (t, c) \<Rightarrow> Some (t, c)
                    | None \<Rightarrow> (case templates of [] \<Rightarrow> None | t # _ \<Rightarrow> Some (t, 0.5)))
      in case chosen of
           None \<Rightarrow> (Inl (Error (str ''Cannot read properties of undefined'')), lg)
         | Some (bestTemplate, conf) \<Rightarrow>
             (Inr \<lparr>documentType = JStr (name bestTemplate),
                   oa_confidence = JNum conf,
                   reasoning = JStr (str
                     ''Fallback analysis using keyword matching and pattern recognition''),
                   extractedFields = extractFieldsBasic txt bestTemplate,
                   templateMatch = bestTemplate,
                   fieldMappingDetails = JArr []\<rparr>,
              logAction uid ''openai_fallback_analysis'' (str ''text_analysis'') lg))"

text \<open>The decimal name of an array index.\<close>

fun decimal :: "nat \<Rightarrow> jsstring" where
  "decimal n = (if n < 10 then [48 + n] else decimal (n div 10) @ [48 + n mod 10])"

declare decimal.simps [simp del]

text \<open>
  \<open>{ ...value }\<close>: the own enumerable properties of the value. \<open>undefined\<close>, \<open>null\<close>,
  numbers and booleans have none; a string has its code units and an array its elements,
  under their indices.
\<close>

definition spread :: "json option \<Rightarrow> dict" where
  "spread v =
     (case v of
        Some (JObj kvs) \<Rightarrow> (map_of kvs, True)
      | Some (JArr xs) \<Rightarrow> (map_of (zip (map decimal [0..<length xs]) xs), True)
      | Some (JStr cs) \<Rightarrow>
          (map_of (zip (map decimal [0..<length cs]) (map (\<lambda>c. JStr [c]) cs)), True)
      | _ \<Rightarrow> newObject)"

text \<open>The loop of \<open>ensureAllFieldsPresent\<close>.\<close>

fun fillMissing :: "TemplateField list \<Rightarrow> dict \<Rightarrow> dict" where
  "fillMissing [] completeFields = completeFields"
| "fillMissing (field # rest) completeFields =
     fillMissing rest
       (if \<not> js_in (field_id field) completeFields
          then assign completeFields (field_id field) (defaultValue field)
        else completeFields)"

definition ensureAllFieldsPresent :: "json option \<Rightarrow> DocumentType \<Rightarrow> obj" where
  "ensureAllFieldsPresent fromModel t = fst (fillMissing (template t) (spread fromModel))"

text \<open>
  \<open>extractFieldsForTemplate\<close>. Only the first property read can throw (when the parsed
  answer is \<open>null\<close>); \<open>allTemplates\<close> is not used.
\<close>

definition extractFieldsForTemplate :: "jsstring \<Rightarrow> DocumentType \<Rightarrow> chat_reply \<Rightarrow> FieldExtraction" where
  "extractFieldsForTemplate txt t reply =
     (case reply of
        ChatFailed \<Rightarrow> createFallbackFieldExtraction txt t
      | ChatJson extraction \<Rightarrow>
          (case getProp extraction (str ''extractedFields'') of
             Inl e \<Rightarrow> createFallbackFieldExtraction txt t
           | Inr fromModel \<Rightarrow>
               (let get = (\<lambda>k. case getProp extraction (str k) of Inl e \<Rightarrow> None | Inr v \<Rightarrow> v)
                in \<lparr>fe_documentType = or_else (get ''documentType'') (JStr (name t)),
                    fe_confidence = or_else (get ''confidence'') (JNum 0.7),
                    fe_reasoning = or_else (get ''reasoning'')
                      (JStr (str ''Automated field extraction completed'')),
                    fe_extractedFields = ensureAllFieldsPresent fromModel t,
                    fe_fieldMappingDetails = or_else (get ''fieldMappingDetails'') (JArr [])\<rparr>)))"

text \<open>
  \<open>analyzeDocument\<close>: \<open>classification\<close> and \<open>extraction\<close> are what the two requests come
  to. An error thrown in the \<open>try\<close> block is logged and \<open>createFallbackAnalysis\<close> is
  called again in the \<open>catch\<close> block, where nothing catches what it throws.
\<close>

definition analyzeDocument ::
  "jsstring \<Rightarrow> DocumentType list \<Rightarrow> jsstring \<Rightarrow> chat_reply \<Rightarrow> chat_reply \<Rightarrow> audit
     \<Rightarrow> (error + OpenAIAnalysisResult) \<times> audit" where
  "analyzeDocument txt availableTemplates uid classification extraction lg =
     (let lg1 = logAction uid ''openai_analysis_start'' (str ''text_analysis'') lg;
          (attempt, lg2) =
            (case findBestTemplate txt availableTemplates classification of
               None \<Rightarrow> createFallbackAnalysis txt availableTemplates uid lg1
             | Some tm \<Rightarrow>
                 (let fieldExtractionResult =
                        extractFieldsForTemplate txt tm extraction
                  in (Inr \<lparr>documentType = fe_documentType fieldExtractionResult,
                            oa_confidence = fe_confidence fieldExtractionResult,
                            reasoning = fe_reasoning fieldExtractionResult,
                            extractedFields = fe_extractedFields fieldExtractionResult,
                            templateMatch = tm,
                            fieldMappingDetails =
                              or_else (Some (fe_fieldMappingDetails fieldExtractionResult))
                                      (JArr [])\<rparr>,
                      logAction uid ''openai_analysis_complete'' (str ''text_analysis'') lg1)))
      in case attempt of
           Inr result \<Rightarrow> (Inr result, lg2)
         | Inl e \<Rightarrow>
             createFallbackAnalysis txt availableTemplates uid
               (logAction uid ''openai_analysis_error'' (str ''text_analysis'') lg2))"


section \<open>The specification's formulas\<close>











section \<open>Example inputs\<close>


definition leaveTemplate :: DocumentType where
  "leaveTemplate =
     \<lparr>template_id = str ''leave'', name = str ''Leave Letter'', category = str ''leave'',
      template =
        [\<lparr>field_id = str ''officer_name'', label = str ''Officer Name'', field_type = TextT,
          required = True, options = None\<rparr>,
         \<lparr>field_id = str ''from_date'', label = str ''From Date'', field_type = DateT,
          required = True, options = None\<rparr>]\<rparr>"

definition awardTemplate :: DocumentType where
  "awardTemplate =
     \<lparr>template_id = str ''award'', name = str ''Award Certificate'', category = str ''reward'',
      template =
        [\<lparr>field_id = str ''recipient'', label = str ''Recipient'', field_type = TextT,
          required = True, options = None\<rparr>]\<rparr>"

text \<open>A template whose name ends in a space: splitting it leaves an empty keyword.\<close>

definition transferTemplate :: DocumentType where
  "transferTemplate =
     \<lparr>template_id = str ''transfer'', name = str ''Transfer Order '', category = str ''transfer'',
      template =
        [\<lparr>field_id = str ''station'', label = str ''Station'', field_type = TextT,
          required = True, options = None\<rparr>]\<rparr>"

definition exampleFile :: File where
  "exampleFile = \<lparr>file_name = str ''a.png'', file_data = Some (str ''QUJD'')\<rparr>"


text \<open>What a classification chose: the id of the template and the confidence.\<close>

definition chosen :: "error + OpenAIAnalysisResult \<Rightarrow> error + jsstring \<times> json" where
  "chosen res = map_sum id (\<lambda>r. (template_id (templateMatch r), oa_confidence r)) res"


text \<open>The text of the first stamp of the master list.\<close>

definition stampText :: jsstring where
  "stampText = str ''OFFICER COMMANDING 14th BN A.P.S.P. ANANTHAPURAMU''"




section \<open>Auxiliary facts\<close>



















lemma keywordLoop_find:
  "keywordLoop txt ts =
     map_option (\<lambda>t. (t, min 0.8 (0.5 + real (matchCount txt t) * 0.1)))
       (find (\<lambda>t. 0 < matchCount txt t) ts)"
  by (induction ts) auto





lemma createFallbackAnalysis_choice:
  assumes "ts \<noteq> []"
  shows "\<exists>r. fst (createFallbackAnalysis txt ts uid lg) = Inr r
     \<and> templateMatch r = (case find (\<lambda>t. 0 < matchCount txt t) ts of Some t \<Rightarrow> t | None \<Rightarrow> hd ts)
     \<and> oa_confidence r = JNum (case find (\<lambda>t. 0 < matchCount txt t) ts of
          Some t \<Rightarrow> min 0.8 (0.5 + 0.1 * real (matchCount txt t)) | None \<Rightarrow> 0.5)"
  using assms
  by (cases ts; cases "find (\<lambda>t. 0 < matchCount txt t) ts")
     (simp_all add: createFallbackAnalysis_def keywordLoop_find mult.commute)

lemmas kw_defs = getTemplateKeywords_def matchCount_def toLowerCase_def lowerUnit_def str_def
  leaveTemplate_def awardTemplate_def transferTemplate_def


lemma analyzeDocument_fallback:
  "findBestTemplate txt ts c = None \<Longrightarrow>
     fst (analyzeDocument txt ts uid c e lg) = fst (createFallbackAnalysis txt ts uid lg')"
  by (simp add: analyzeDocument_def createFallbackAnalysis_def Let_def
      split: option.splits list.splits prod.splits sum.splits)

lemma analyzeDocument_matched:
  "findBestTemplate txt ts c = Some tm \<Longrightarrow>
     \<exists>r. fst (analyzeDocument txt ts uid c e lg) = Inr r \<and> templateMatch r = tm"
  by (simp add: analyzeDocument_def Let_def)

lemma findBestTemplate_failed:
  "ts \<noteq> [] \<Longrightarrow> findBestTemplate txt ts ChatFailed = Some (hd ts)"
  "ts \<noteq> [] \<Longrightarrow> findBestTemplate txt ts (ChatJson JNull) = Some (hd ts)"
  by (cases ts; simp add: findBestTemplate_def)+

lemma findStamp_find:
  "findStamp ss t = (case find (\<lambda>s. test True (pattern s) t) ss of
                       Some s \<Rightarrow> (Some (stamp_name s), Y) | None \<Rightarrow> (None, N))"
  by (induction ss) auto

lemma convert_of_fallback:
  "StampValidation (convertResult (analysisObject a)) = N"
  "MatchedStampType (convertResult (analysisObject a)) = None"
  by (simp_all add: convertResult_def analysisObject_def opt_prop_def or_undefined_def str_def
      Let_def split: option.splits)

lemmas rx_defs = str_def lit_def anything_def spaces_def spaces1_def Plus_def Opt_def test_def
  isSpace_def swapCase_def

lemma stampText_matches:
  "find (\<lambda>s. test True (pattern s) stampText) OFFICIAL_STAMP_MASTER_LIST
     = Some (hd OFFICIAL_STAMP_MASTER_LIST)"
  by (simp add: OFFICIAL_STAMP_MASTER_LIST_def stampText_def rx_defs)

lemma stampText_test: "test True (pattern (hd OFFICIAL_STAMP_MASTER_LIST)) stampText"
  using stampText_matches by (metis find_Some_iff)



























section \<open>Text extraction failures (C4)\<close>

text \<open>
  C4, as the specification has it: when the vision service is unreachable or its reply
  lacks the text field, text extraction hands the failure on as a result with empty
  text and zero confidence and raises nothing. The source does the opposite: in both
  cases \<open>extractTextFromDocument\<close> throws an \<open>Error\<close> to its caller.
\<close>

theorem extraction_unreachable_throws:
  "fst (extractTextFromDocument \<lparr>file_name = str ''a.png'', file_data = Some (str ''QUJD'')\<rparr>
          (str ''u1'') (Unreachable (str ''Failed to fetch'')) 0 1 [])
     = Inl (Error (str ''Ollama text extraction failed: Failed to fetch''))
   \<and> fst (extractTextFromDocument \<lparr>file_name = str ''a.png'', file_data = Some (str ''QUJD'')\<rparr>
          (str ''u1'') (Body (JObj [(str ''done'', JBool True)])) 0 1 [])
     = Inl (Error (str ''Ollama text extraction failed: No response from Ollama model''))"
  by (simp add: extractTextFromDocument_def fileToBase64_def processWithGemma3_def
      errorMessage_def str_def Let_def)

text \<open>
  C4, amended: for every document, when the vision service is unreachable or its reply
  is an object without the property \<open>response\<close>, \<open>extractTextFromDocument\<close> throws an
  \<open>Error\<close> whose message is \<open>Ollama text extraction failed: \<close> followed by the
  message of the failure; it returns no result.
\<close>

theorem extraction_failure_is_thrown:
  assumes "reply = Unreachable m
           \<or> (reply = Body (JObj kvs) \<and> map_of kvs (str ''response'') = None)"
  shows "fst (extractTextFromDocument file uid reply t0 t1 lg) =
           Inl (Error (str ''Ollama text extraction failed: '' @
             (if file_data file = None then str ''Ollama processing failed''
              else if reply = Unreachable m then m
              else str ''No response from Ollama model'')))"
  using assms
  by (auto simp add: extractTextFromDocument_def fileToBase64_def processWithGemma3_def
      errorMessage_def Let_def split: option.splits)

theorem extraction_failure_is_thrown_witness:
  "map_of [(str ''done'', JBool True)] (str ''response'') = None
   \<and> fst (extractTextFromDocument \<lparr>file_name = str ''a.png'', file_data = Some (str ''QUJD'')\<rparr>
          (str ''u1'') (Body (JObj [(str ''done'', JBool True)])) 0 1 [])
     = Inl (Error (str ''Ollama text extraction failed: No response from Ollama model''))"
proof -
  have h: "map_of [(str ''done'', JBool True)] (str ''response'') = None"
    by (simp add: str_def)
  show ?thesis
    using h extraction_failure_is_thrown [of "Body (JObj [(str ''done'', JBool True)])" "[]"
        "[(str ''done'', JBool True)]"
        "\<lparr>file_name = str ''a.png'', file_data = Some (str ''QUJD'')\<rparr>" "str ''u1''" 0 1 "[]"]
    by (simp add: str_def)
qed


section \<open>The analyzer never raises (C9)\<close>




section \<open>Confidence values (C5, C6)\<close>








section \<open>The keyword fallback classifier (C7)\<close>





section \<open>Document analysis fails closed (C3)\<close>

text \<open>
  C3, as the specification has it: when the classification request fails, the keyword
  fallback classifies, and document analysis returns a result for any text and any
  catalog. In the source a failed request takes the first template of the catalog:
  for the text \<open>medal\<close> that is the leave letter, where the keyword fallback takes the
  award. With the empty catalog document analysis throws.
\<close>

theorem classifier_failure_takes_first_template:
  "chosen (fst (analyzeDocument (str ''medal'') [leaveTemplate, awardTemplate] (str ''u1'')
                  ChatFailed ChatFailed []))
     = Inr (str ''leave'', JNum 0.6)
   \<and> chosen (fst (createFallbackAnalysis (str ''medal'') [leaveTemplate, awardTemplate]
                  (str ''u1'') []))
     = Inr (str ''award'', JNum 0.6)
   \<and> fst (analyzeDocument (str ''medal'') [] (str ''u1'') ChatFailed ChatFailed [])
     = Inl (Error (str ''Cannot read properties of undefined''))"
  by (simp add: chosen_def analyzeDocument_def findBestTemplate_def extractFieldsForTemplate_def
      createFallbackFieldExtraction_def createFallbackAnalysis_def kw_defs Let_def)

text \<open>
  C3, amended: for every text and every non-empty catalog, whatever the two requests
  come to, document analysis returns a result and throws nothing. The template of the
  result is the one \<open>findBestTemplate\<close> gives, which is the first template of the catalog
  when the classification request fails or its answer is \<open>null\<close>; the keyword fallback
  chooses only when the answer names no template of the catalog.
\<close>

theorem analyzeDocument_returns:
  assumes "ts \<noteq> []"
  shows "(\<exists>r. fst (analyzeDocument txt ts uid c e lg) = Inr r
           \<and> templateMatch r =
               (case findBestTemplate txt ts c of
                  Some tm \<Rightarrow> tm
                | None \<Rightarrow> (case find (\<lambda>t. 0 < matchCount txt t) ts of
                             Some t \<Rightarrow> t | None \<Rightarrow> hd ts)))
         \<and> findBestTemplate txt ts ChatFailed = Some (hd ts)
         \<and> findBestTemplate txt ts (ChatJson JNull) = Some (hd ts)"
proof -
  have "\<exists>r. fst (analyzeDocument txt ts uid c e lg) = Inr r
           \<and> templateMatch r =
               (case findBestTemplate txt ts c of
                  Some tm \<Rightarrow> tm
                | None \<Rightarrow> (case find (\<lambda>t. 0 < matchCount txt t) ts of
                             Some t \<Rightarrow> t | None \<Rightarrow> hd ts))"
  proof (cases "findBestTemplate txt ts c")
    case None
    with analyzeDocument_fallback [OF None, of uid e lg lg]
      createFallbackAnalysis_choice [OF assms, of "txt" uid lg]
    show ?thesis by auto
  next
    case (Some tm)
    with analyzeDocument_matched [OF Some, of uid e lg] show ?thesis by auto
  qed
  with findBestTemplate_failed [OF assms] show ?thesis by blast
qed

theorem analyzeDocument_returns_witness:
  "[leaveTemplate, awardTemplate] \<noteq> []
   \<and> (\<exists>r. fst (analyzeDocument (str ''medal'') [leaveTemplate, awardTemplate] (str ''u1'')
                ChatFailed ChatFailed []) = Inr r
          \<and> templateMatch r = leaveTemplate)"
proof -
  have ne: "[leaveTemplate, awardTemplate] \<noteq> []" by simp
  from analyzeDocument_returns [OF ne, of "str ''medal''" "str ''u1''" ChatFailed ChatFailed "[]"]
  show ?thesis by auto
qed


section \<open>The fallbacks depend on their input only (C10)\<close>




section \<open>Stamp registry validation (C1)\<close>

text \<open>
  C1, as the specification has it: when the extracted text matches the pattern of a
  stamp of the registry, the result is validated with that stamp's name, on the model
  path as on the fallback path, whatever the model reports. In the source the model
  path takes the validation from the model's \<open>official_stamp_match\<close>: for the text of
  the first stamp and a model that reports no match the result is \<open>N\<close> with no name. So
  is the result when the model's answer cannot be parsed.
\<close>

theorem model_report_decides_validation:
  "test True (pattern (hd OFFICIAL_STAMP_MASTER_LIST)) stampText
   \<and> analyzeWithOllama exampleFile stampText (Answer [(str ''official_stamp_match'', JBool False)])
     = Inr (convertResult [(str ''official_stamp_match'', JBool False)])
   \<and> StampValidation (convertResult [(str ''official_stamp_match'', JBool False)]) = N
   \<and> MatchedStampType (convertResult [(str ''official_stamp_match'', JBool False)]) = None
   \<and> analyzeWithOllama exampleFile stampText NotJson
     = Inr (convertResult (analysisObject (fallbackTextAnalysis stampText)))
   \<and> StampValidation (convertResult (analysisObject (fallbackTextAnalysis stampText))) = N"
  using stampText_test convert_of_fallback(1) [of "fallbackTextAnalysis stampText"]
  by (simp add: analyzeWithOllama_def fileToBase64_def exampleFile_def convertResult_def
      or_undefined_def str_def)

text \<open>
  C1, amended: for every readable document and every extracted text, when the first
  stamp of the registry, in its order, whose pattern is found in the text is
  \<open>stamp\<close>, the local heuristic that answers a failed analysis request returns validation
  \<open>Y\<close> and the name of \<open>stamp\<close>. When the model's answer is parsed, the validation is \<open>Y\<close>
  exactly when the model's \<open>official_stamp_match\<close> is truthy, and the name is the model's
  \<open>matched_stamp_type\<close>.
\<close>

theorem registry_validation_on_fallback:
  assumes "find (\<lambda>s. test True (pattern s) txt) OFFICIAL_STAMP_MASTER_LIST = Some stamp"
    and "file_data file \<noteq> None"
  shows "(\<exists>a. analyzeWithOllama file txt NoAnswer = Inr a
            \<and> StampValidation a = Y \<and> MatchedStampType a = Some (JStr (stamp_name stamp)))
       \<and> (\<exists>a. analyzeWithOllama file txt (Answer props) = Inr a
            \<and> StampValidation a
                = (if truthy (map_of props (str ''official_stamp_match'')) then Y else N)
            \<and> MatchedStampType a = or_undefined (map_of props (str ''matched_stamp_type'')))"
  using assms
  by (auto simp add: analyzeWithOllama_def fileToBase64_def fallbackTextAnalysis_def
      findStamp_find convertResult_def Let_def)

theorem registry_validation_on_fallback_witness:
  "file_data exampleFile \<noteq> None
   \<and> (\<exists>a. analyzeWithOllama exampleFile stampText NoAnswer = Inr a
          \<and> StampValidation a = Y
          \<and> MatchedStampType a = Some (JStr (stamp_name (hd OFFICIAL_STAMP_MASTER_LIST))))"
proof -
  have f: "file_data exampleFile \<noteq> None" by (simp add: exampleFile_def)
  from registry_validation_on_fallback [OF stampText_matches f, of "[]"] f
  show ?thesis by blast
qed


section \<open>Completeness of the field map (C2)\<close>





section \<open>The fallback field extraction (C8)\<close>



end
